theory Spec2Isabelle
  imports
    Main
    "HOL-Library.AList"
    "HOL-Library.Char_ord"
    "HOL-Library.List_Lexorder"
    "HOL-Library.Multiset"
begin

section \<open>JSON values and the canonical encoder\<close>

text \<open>
  The contract of \<^verbatim>\<open>node/src/revocationTransfer.ts\<close> builds JavaScript objects and
  stores \<^verbatim>\<open>Buffer.from(stringify(sortKeysRecursive(obj)))\<close>. An object is a list of
  fields in insertion order; a JavaScript object never has the same key twice
  (\<open>distinct_keys\<close>). Strings are byte strings. Numbers are the integers only; the
  contract builds none.
\<close>

datatype json =
    JNull
  | JBool bool
  | JNum int
  | JStr string
  | JArr "json list"
  | JObj "(string \<times> json) list"

fun distinct_keys :: "json \<Rightarrow> bool" where
  "distinct_keys (JObj fs) = (distinct (map fst fs) \<and> (\<forall>f \<in> set fs. distinct_keys (snd f)))"
| "distinct_keys (JArr xs) = (\<forall>x \<in> set xs. distinct_keys x)"
| "distinct_keys _ = True"

text \<open>
  Modelled from the spec: the two npm packages \<^verbatim>\<open>sort-keys-recursive\<close> and
  \<^verbatim>\<open>json-stringify-deterministic\<close> are imported by the contract and are not part of
  its sources. Section 4.1 of the specification: sort all mapping keys by code-point
  order at every level of nesting (arrays retain element order; only mapping keys are
  sorted), then serialize compactly, without whitespace.
\<close>

fun sortKeysRecursive :: "json \<Rightarrow> json" where
  "sortKeysRecursive (JObj fs) =
     JObj (sort_key fst (map (\<lambda>f. (fst f, sortKeysRecursive (snd f))) fs))"
| "sortKeysRecursive (JArr xs) = JArr (map sortKeysRecursive xs)"
| "sortKeysRecursive j = j"

text \<open>
  \<^verbatim>\<open>Number.prototype.toString(radix)\<close> on a natural number. The contract uses radix 36
  and the serializer radix 10; outside 2..36 JavaScript raises a RangeError, and the
  model gives the empty string.
\<close>

definition digit_char :: "nat \<Rightarrow> char" where
  "digit_char d = (if d < 36 then ''0123456789abcdefghijklmnopqrstuvwxyz'' ! d else CHR ''?'')"

function toStringRadix :: "nat \<Rightarrow> nat \<Rightarrow> string" where
  "toStringRadix b n =
     (if b < 2 \<or> 36 < b then []
      else if n < b then [digit_char n]
      else toStringRadix b (n div b) @ [digit_char (n mod b)])"
  by pat_completeness auto
termination
  by (relation "measure snd") auto

definition show_int :: "int \<Rightarrow> string" where
  "show_int i = (if i < 0 then ''-'' @ toStringRadix 10 (nat (- i)) else toStringRadix 10 (nat i))"

definition escape_char :: "char \<Rightarrow> string" where
  "escape_char c =
     (if c = CHR 0x22 then [CHR 0x5C, CHR 0x22]
      else if c = CHR 0x5C then [CHR 0x5C, CHR 0x5C]
      else if c = CHR 0x08 then [CHR 0x5C, CHR ''b'']
      else if c = CHR 0x09 then [CHR 0x5C, CHR ''t'']
      else if c = CHR 0x0A then [CHR 0x5C, CHR ''n'']
      else if c = CHR 0x0C then [CHR 0x5C, CHR ''f'']
      else if c = CHR 0x0D then [CHR 0x5C, CHR ''r'']
      else if (of_char c :: nat) < 32
        then [CHR 0x5C, CHR ''u'', CHR ''0'', CHR ''0'',
              digit_char (of_char c div 16), digit_char (of_char c mod 16)]
      else [c])"

definition quote :: "string \<Rightarrow> string" where
  "quote s = [CHR 0x22] @ concat (map escape_char s) @ [CHR 0x22]"

fun intercalate :: "string \<Rightarrow> string list \<Rightarrow> string" where
  "intercalate sep [] = []"
| "intercalate sep [x] = x"
| "intercalate sep (x # y # ys) = x @ sep @ intercalate sep (y # ys)"

text \<open>\<^verbatim>\<open>JSON.stringify\<close>: fields in the order the object has them.\<close>

fun JSON_stringify :: "json \<Rightarrow> string" where
  "JSON_stringify JNull = ''null''"
| "JSON_stringify (JBool b) = (if b then ''true'' else ''false'')"
| "JSON_stringify (JNum i) = show_int i"
| "JSON_stringify (JStr s) = quote s"
| "JSON_stringify (JArr xs) = ''['' @ intercalate '','' (map JSON_stringify xs) @ '']''"
| "JSON_stringify (JObj fs) =
     ''{'' @ intercalate '','' (map (\<lambda>f. quote (fst f) @ '':'' @ JSON_stringify (snd f)) fs) @ ''}''"

text \<open>
  Modelled from the spec: \<^verbatim>\<open>stringify\<close> of \<^verbatim>\<open>json-stringify-deterministic\<close> is
  \<^verbatim>\<open>JSON.stringify\<close> with the keys of every object sorted.
\<close>

definition stringify :: "json \<Rightarrow> string" where
  "stringify j = JSON_stringify (sortKeysRecursive j)"

text \<open>The bytes every write path stores: \<^verbatim>\<open>Buffer.from(stringify(sortKeysRecursive(x)))\<close>.\<close>

definition encode :: "json \<Rightarrow> string" where
  "encode j = stringify (sortKeysRecursive j)"

section \<open>The world state\<close>

text \<open>
  Modelled from the spec: the key-value substrate behind \<^verbatim>\<open>ctx.stub\<close> is an external
  collaborator (section 6): get, put, delete and a range scan in key order. The state is
  an association list from keys to bytes. \<^verbatim>\<open>getState\<close> of an absent key is the empty
  buffer.
\<close>

type_synonym state = "(string \<times> string) list"

definition getState :: "state \<Rightarrow> string \<Rightarrow> string" where
  "getState s k = (case map_of s k of None \<Rightarrow> [] | Some v \<Rightarrow> v)"

definition putState :: "string \<Rightarrow> string \<Rightarrow> state \<Rightarrow> state" where
  "putState k v s = AList.update k v s"

definition deleteState :: "string \<Rightarrow> state \<Rightarrow> state" where
  "deleteState k s = AList.delete k s"

definition getStateByRange :: "state \<Rightarrow> (string \<times> string) list" where
  "getStateByRange s = sort_key fst s"

section \<open>The contract\<close>

text \<open>
  A thrown \<^verbatim>\<open>new Error(msg)\<close> is \<open>Error msg\<close>. \<open>ReferenceError x\<close> is what evaluating
  the identifier \<open>x\<close> raises when nothing binds it, \<open>TypeError\<close> what reading a property
  of \<^verbatim>\<open>null\<close> raises. An operation returns its outcome together with the state as the
  operation left it, so that what a failing operation wrote before it failed is visible.
\<close>

datatype error = Error string | ReferenceError string | TypeError

type_synonym 'a result = "(error + 'a) \<times> state"

text \<open>
  The module constant \<^verbatim>\<open>date = toDate(TIMESTAMP)\<close>: 1659172409 s and 567000000 ns, in
  the form \<^verbatim>\<open>Date.prototype.toJSON\<close> gives it when it is serialized.
\<close>

definition date :: json where
  "date = JStr ''2022-07-30T09:13:29.567Z''"

text \<open>
  What an execution takes from its environment. \<^verbatim>\<open>generateUniqueId\<close> reads the clock
  and the random number generator: \<open>now\<close> is \<^verbatim>\<open>Date.now()\<close>, \<open>random\<close> is
  \<^verbatim>\<open>Math.random().toString(36)\<close>. \<open>lands\<close> is the timing of a call whose promise is
  dropped, explained with \<open>dropped\<close> below.
\<close>

record env =
  now :: nat
  random :: string
  lands :: bool

definition generateUniqueId :: "env \<Rightarrow> string" where
  "generateUniqueId e = toStringRadix 36 (now e) @ drop 2 (random e)"

text \<open>
  \<open>str_field x k\<close> is the property read \<^verbatim>\<open>x.k\<close> where the source uses it as a key:
  the field is a string in every record the contract builds. \<open>put_each\<close> is the loop
  \<^verbatim>\<open>for (const x of xs) await ctx.stub.putState(x.k, Buffer.from(stringify(sortKeysRecursive(x))))\<close>.
\<close>

definition str_field :: "json \<Rightarrow> string \<Rightarrow> string" where
  "str_field x k = (case x of JObj fs \<Rightarrow> (case map_of fs k of Some (JStr v) \<Rightarrow> v | _ \<Rightarrow> []) | _ \<Rightarrow> [])"

fun put_each :: "string \<Rightarrow> json list \<Rightarrow> state \<Rightarrow> state" where
  "put_each k [] s = s"
| "put_each k (x # xs) s = put_each k xs (putState (str_field x k) (encode x) s)"

definition InitLedger_revocations :: "json list" where
  "InitLedger_revocations =
     [JObj [(''targetDeploymentID'', JStr ''123''), (''reason'', JStr ''example''),
            (''RevocationID'', JStr ''1'')]]"

definition InitLedger :: "state \<Rightarrow> unit result" where
  "InitLedger s = (Inr (), put_each ''RevocationID'' InitLedger_revocations s)"

definition GetRevocationByID :: "state \<Rightarrow> string \<Rightarrow> error + string" where
  "GetRevocationByID s RevocationID =
     (let assetJSON = getState s RevocationID
      in if length assetJSON = 0
         then Inl (Error (''The asset '' @ RevocationID @ '' does not exist''))
         else Inr assetJSON)"

definition ValidateRevocation :: "state \<Rightarrow> string \<Rightarrow> bool" where
  "ValidateRevocation s RevocationID = (length (getState s RevocationID) > 0)"

text \<open>
  \<^verbatim>\<open>JSON.parse\<close> is a parameter \<open>parse\<close> of the two listings; \<open>None\<close> is its
  \<^verbatim>\<open>SyntaxError\<close>. \<open>get_field r k\<close> is the property read \<^verbatim>\<open>r.k\<close>, for a key \<open>k\<close>
  that no prototype defines: \<open>Inr None\<close> is \<^verbatim>\<open>undefined\<close>.
\<close>

fun get_field :: "json \<Rightarrow> string \<Rightarrow> error + json option" where
  "get_field JNull k = Inl TypeError"
| "get_field (JObj fs) k = Inr (map_of fs k)"
| "get_field _ k = Inr None"

fun scan_by_field ::
  "string \<Rightarrow> (string \<Rightarrow> json option) \<Rightarrow> (string \<times> string) list \<Rightarrow> json list \<Rightarrow> error + json list"
where
  "scan_by_field k parse [] allResults = Inr allResults"
| "scan_by_field k parse (result # rest) allResults =
     (let strValue = snd result;
          rcd = (case parse strValue of Some j \<Rightarrow> j | None \<Rightarrow> JStr strValue)
      in case get_field rcd k of
           Inl e \<Rightarrow> Inl e
         | Inr None \<Rightarrow> scan_by_field k parse rest allResults
         | Inr (Some _) \<Rightarrow> scan_by_field k parse rest (allResults @ [rcd]))"

text \<open>The array \<^verbatim>\<open>allResults\<close> when the loop of \<^verbatim>\<open>GetAllRevocations\<close> ends.\<close>

definition GetAllRevocations_records :: "(string \<Rightarrow> json option) \<Rightarrow> state \<Rightarrow> error + json list" where
  "GetAllRevocations_records parse s = scan_by_field ''RevocationID'' parse (getStateByRange s) []"

definition GetAllRevocations :: "(string \<Rightarrow> json option) \<Rightarrow> state \<Rightarrow> error + string" where
  "GetAllRevocations parse s =
     (case GetAllRevocations_records parse s of
        Inl e \<Rightarrow> Inl e
      | Inr allResults \<Rightarrow> Inr (JSON_stringify (JArr allResults)))"

definition ValidateDeployment :: "state \<Rightarrow> string \<Rightarrow> bool" where
  "ValidateDeployment s deploymentID = (length (getState s deploymentID) > 0)"

definition GetDeploymentByID :: "state \<Rightarrow> string \<Rightarrow> error + string" where
  "GetDeploymentByID s deploymentID =
     (let deploymentJSON = getState s deploymentID
      in if length deploymentJSON = 0
         then Inl (Error (''The asset '' @ deploymentID @ '' does not exist''))
         else Inr deploymentJSON)"

definition TransactionExists :: "state \<Rightarrow> string \<Rightarrow> bool" where
  "TransactionExists s id' = (length (getState s id') > 0)"

text \<open>
  \<^verbatim>\<open>CreateAsset\<close> suspends once before it writes, at the \<^verbatim>\<open>getState\<close> of
  \<^verbatim>\<open>TransactionExists\<close> (lines 213 and 201). \<open>CreateAsset_resumed\<close> is the rest of it
  (lines 215 to 230), from the answer \<open>exists\<close> of that read on. When the call is
  awaited, nothing happens in between.
\<close>

definition CreateAsset_resumed ::
  "bool \<Rightarrow> string \<Rightarrow> string \<Rightarrow> json \<Rightarrow> string \<Rightarrow> state \<Rightarrow> unit result" where
  "CreateAsset_resumed exists ID authorID time description s =
     (if exists then (Inl (Error (''The asset '' @ ID @ '' already exists'')), s)
      else
        let transactionLog = JObj [(''transactionID'', JStr ID), (''authorID'', JStr authorID),
                                   (''time'', time), (''description'', JStr description)]
        in (Inr (), putState ID (encode transactionLog) s))"

definition CreateAsset :: "state \<Rightarrow> string \<Rightarrow> string \<Rightarrow> json \<Rightarrow> string \<Rightarrow> unit result" where
  "CreateAsset s ID authorID time description =
     CreateAsset_resumed (TransactionExists s ID) ID authorID time description s"

text \<open>
  \<^verbatim>\<open>Deployment\<close> (line 165) and \<^verbatim>\<open>Revoke\<close> (line 137) call
  \<^verbatim>\<open>this.CreateAsset(...)\<close> without \<^verbatim>\<open>await\<close>. The call runs up to its suspension: the
  existence read is issued on the state as it is at the call. The caller then goes on
  with the promise dropped, so a rejection of \<^verbatim>\<open>CreateAsset\<close> reaches nobody, and the
  rest of \<^verbatim>\<open>CreateAsset\<close> runs only once the answer of its read has arrived: what it
  puts is issued after the store operation the caller issues next. Whether that put
  lands before the unit of work ends is a matter of timing that the source does not
  fix; it is the input \<open>lands\<close>. A put that has not landed when the unit of work ends
  is not in the state the unit of work leaves.
\<close>

definition dropped :: "env \<Rightarrow> (state \<Rightarrow> 'a result) \<Rightarrow> state \<Rightarrow> state" where
  "dropped e rest s = (if lands e then snd (rest s) else s)"

text \<open>
  Line 139 of \<^verbatim>\<open>Revoke\<close> passes the identifier \<^verbatim>\<open>eploymentID\<close> as the key of its
  \<^verbatim>\<open>putState\<close>. No parameter, local, import or global of the module has that name:
  evaluating it raises, right after the call of line 137 and before any store operation
  of \<^verbatim>\<open>Revoke\<close> itself.
\<close>

definition eploymentID :: "error + string" where
  "eploymentID = Inl (ReferenceError ''eploymentID'')"

definition Revoke :: "env \<Rightarrow> state \<Rightarrow> string \<Rightarrow> string \<Rightarrow> string \<Rightarrow> unit result" where
  "Revoke e s deploymentID reason authorID =
     (if \<not> ValidateDeployment s deploymentID
      then (Inl (Error ''The does not exist, or already has been revoked''), s)
      else
        let id' = generateUniqueId e;
            revocation = JObj [(''targetDeploymentID'', JStr deploymentID), (''reason'', JStr reason),
                               (''revocationID'', JStr id')];
            exists = TransactionExists s deploymentID;
            rest = CreateAsset_resumed exists deploymentID authorID date reason
        in case eploymentID of
             Inl err \<Rightarrow> (Inl err, dropped e rest s)
           | Inr key \<Rightarrow>
               let s1 = putState key (encode revocation) s;
                   s2 = dropped e rest s1;
                   s3 = deleteState deploymentID s2
               in (Inr (), s3))"

definition Deployment :: "env \<Rightarrow> state \<Rightarrow> string \<Rightarrow> string \<Rightarrow> string \<Rightarrow> string \<Rightarrow> unit result" where
  "Deployment e s authorID comment payload deploymentID =
     (if ValidateDeployment s deploymentID
      then (Inl (Error (''The asset '' @ deploymentID @ '' already exists'')), s)
      else
        let deployment = JObj [(''deploymentID'', JStr deploymentID), (''comment'', JStr comment),
                               (''authorID'', JStr authorID), (''payload'', JStr payload)];
            exists = TransactionExists s deploymentID;
            rest = CreateAsset_resumed exists deploymentID authorID date comment;
            s1 = putState deploymentID (encode deployment) s;
            s2 = dropped e rest s1
        in (Inr (), s2))"

definition ReadAsset :: "state \<Rightarrow> string \<Rightarrow> error + string" where
  "ReadAsset s id' =
     (let transactionLogJSON = getState s id'
      in if length transactionLogJSON = 0
         then Inl (Error (''The log of a transaction with an ID of '' @ id' @ '' does not exist''))
         else Inr transactionLogJSON)"

definition GetAllTransactionLogs_records :: "(string \<Rightarrow> json option) \<Rightarrow> state \<Rightarrow> error + json list" where
  "GetAllTransactionLogs_records parse s = scan_by_field ''transactionID'' parse (getStateByRange s) []"

definition GetAllTransactionLogs :: "(string \<Rightarrow> json option) \<Rightarrow> state \<Rightarrow> error + string" where
  "GetAllTransactionLogs parse s =
     (case GetAllTransactionLogs_records parse s of
        Inl e \<Rightarrow> Inl e
      | Inr allResults \<Rightarrow> Inr (JSON_stringify (JArr allResults)))"

text \<open>
  The four write operations of the contract, and one execution of one of them: the
  operation with its arguments, the environment of the execution and the initial state.
\<close>

datatype operation =
    OpInitLedger
  | OpDeployment string string string string
  | OpRevoke string string string
  | OpCreateAsset string string json string

fun exec :: "env \<Rightarrow> operation \<Rightarrow> state \<Rightarrow> unit result" where
  "exec e OpInitLedger s = InitLedger s"
| "exec e (OpDeployment authorID comment payload deploymentID) s =
     Deployment e s authorID comment payload deploymentID"
| "exec e (OpRevoke deploymentID reason authorID) s = Revoke e s deploymentID reason authorID"
| "exec e (OpCreateAsset ID authorID time description) s = CreateAsset s ID authorID time description"

subsection \<open>The second copy of the contract\<close>

text \<open>
  The repository holds a second copy of the contract, without the transaction log. Its
  \<^verbatim>\<open>InitLedger\<close> also seeds five deployments, and its \<^verbatim>\<open>GetAllRevocations\<close> pushes
  every scanned value.
\<close>

definition InitLedger_deployment :: "json list" where
  "InitLedger_deployment =
     [JObj [(''authorID'', JStr ''1111''), (''deploymentID'', JStr ''0000''),
            (''comment'', JStr ''Hello''), (''payload'', JStr ''sodjfo'')],
      JObj [(''authorID'', JStr ''2222''), (''deploymentID'', JStr ''9999''),
            (''comment'', JStr ''Hey''), (''payload'', JStr ''kajsnf'')],
      JObj [(''authorID'', JStr ''3333''), (''deploymentID'', JStr ''8888''),
            (''comment'', JStr ''Hi''), (''payload'', JStr ''khklhl'')],
      JObj [(''authorID'', JStr ''4444''), (''deploymentID'', JStr ''7777''),
            (''comment'', JStr ''Hola''), (''payload'', JStr ''nknjnk'')],
      JObj [(''authorID'', JStr ''5555''), (''deploymentID'', JStr ''6666''),
            (''comment'', JStr ''Aloha''), (''payload'', JStr ''lrterw'')]]"

definition InitLedger_2 :: "state \<Rightarrow> unit result" where
  "InitLedger_2 s =
     (let s1 = put_each ''RevocationID'' InitLedger_revocations s
      in (Inr (), put_each ''deploymentID'' InitLedger_deployment s1))"

fun scan_all :: "(string \<Rightarrow> json option) \<Rightarrow> (string \<times> string) list \<Rightarrow> json list \<Rightarrow> json list" where
  "scan_all parse [] allResults = allResults"
| "scan_all parse (result # rest) allResults =
     (let strValue = snd result;
          rcd = (case parse strValue of Some j \<Rightarrow> j | None \<Rightarrow> JStr strValue)
      in scan_all parse rest (allResults @ [rcd]))"

definition GetAllRevocations_2_records :: "(string \<Rightarrow> json option) \<Rightarrow> state \<Rightarrow> json list" where
  "GetAllRevocations_2_records parse s = scan_all parse (getStateByRange s) []"

definition GetAllRevocations_2 :: "(string \<Rightarrow> json option) \<Rightarrow> state \<Rightarrow> string" where
  "GetAllRevocations_2 parse s = JSON_stringify (JArr (GetAllRevocations_2_records parse s))"

section \<open>Notions the properties are stated with\<close>

text \<open>
  \<open>reorder r r'\<close>: \<open>r'\<close> is \<open>r\<close> with the fields of the object and of every nested
  object in some other order. Arrays keep the order of their elements.
\<close>

inductive reorder :: "json \<Rightarrow> json \<Rightarrow> bool" where
  reorder_JNull: "reorder JNull JNull"
| reorder_JBool: "reorder (JBool b) (JBool b)"
| reorder_JNum: "reorder (JNum i) (JNum i)"
| reorder_JStr: "reorder (JStr s) (JStr s)"
| reorder_JArr: "list_all2 reorder xs ys \<Longrightarrow> reorder (JArr xs) (JArr ys)"
| reorder_JObj:
    "list_all2 (\<lambda>f h. fst f = fst h \<and> reorder (snd f) (snd h)) fs hs \<Longrightarrow> mset hs = mset gs \<Longrightarrow>
     reorder (JObj fs) (JObj gs)"

text \<open>
  An instance of \<^verbatim>\<open>JSON.parse\<close> for states whose values are encodings of known
  records: \<^verbatim>\<open>JSON.parse\<close> inverts \<^verbatim>\<open>JSON.stringify\<close>, so the text of a record with
  sorted keys parses to that record. On any other string this instance answers \<open>None\<close>.
\<close>

definition parse_known :: "json list \<Rightarrow> string \<Rightarrow> json option" where
  "parse_known known v = find (\<lambda>j. JSON_stringify j = v) (map sortKeysRecursive known)"

text \<open>
  Two environments that differ in the timing only: in \<open>env_lands\<close> the put of a dropped
  call lands before the unit of work ends, in \<open>env_late\<close> the unit of work ends first.
\<close>

definition env_lands :: env where
  "env_lands = \<lparr>now = 1659172409567, random = ''0.4fzyo82mvyr'', lands = True\<rparr>"

definition env_late :: env where
  "env_late = \<lparr>now = 1659172409567, random = ''0.4fzyo82mvyr'', lands = False\<rparr>"

text \<open>The value a scan step looks at: the parsed value, or the raw string.\<close>

definition parsed_or_raw :: "(string \<Rightarrow> json option) \<Rightarrow> string \<times> string \<Rightarrow> json" where
  "parsed_or_raw parse result = (case parse (snd result) of Some j \<Rightarrow> j | None \<Rightarrow> JStr (snd result))"

section \<open>Facts about the store and the encoder\<close>

lemma getState_putState_same: "getState (putState k v s) k = v"
  by (simp add: getState_def putState_def update_conv')

lemma getState_putState_other: "k' \<noteq> k \<Longrightarrow> getState (putState k v s) k' = getState s k'"
  by (simp add: getState_def putState_def update_conv')

lemma encode_JObj_nonempty: "encode (JObj fs) \<noteq> []"
  by (simp add: encode_def stringify_def)

lemma CreateAsset_absent:
  "\<not> TransactionExists s k \<Longrightarrow>
   CreateAsset s k a t d =
     (Inr (), putState k (encode (JObj [(''transactionID'', JStr k), (''authorID'', JStr a),
                                         (''time'', t), (''description'', JStr d)])) s)"
  by (simp add: CreateAsset_def CreateAsset_resumed_def)

lemma CreateAsset_present:
  "TransactionExists s k \<Longrightarrow>
   CreateAsset s k a t d = (Inl (Error (''The asset '' @ k @ '' already exists'')), s)"
  by (simp add: CreateAsset_def CreateAsset_resumed_def)

lemma Deployment_present:
  "ValidateDeployment s d \<Longrightarrow>
   Deployment e s a c p d = (Inl (Error (''The asset '' @ d @ '' already exists'')), s)"
  by (simp add: Deployment_def)

text \<open>
  \<open>Deployment\<close> on a free key, for every state: its own put, and on top of it the
  log entry of the dropped \<open>CreateAsset\<close> when that lands.
\<close>

lemma Deployment_absent:
  "\<not> ValidateDeployment s d \<Longrightarrow>
   Deployment e s a c p d =
     (Inr (),
      if lands e
      then putState d (encode (JObj [(''transactionID'', JStr d), (''authorID'', JStr a),
                                     (''time'', date), (''description'', JStr c)]))
             (putState d (encode (JObj [(''deploymentID'', JStr d), (''comment'', JStr c),
                                        (''authorID'', JStr a), (''payload'', JStr p)])) s)
      else putState d (encode (JObj [(''deploymentID'', JStr d), (''comment'', JStr c),
                                     (''authorID'', JStr a), (''payload'', JStr p)])) s)"
  by (simp add: Deployment_def dropped_def CreateAsset_resumed_def TransactionExists_def
      ValidateDeployment_def)

lemma ValidateDeployment_after_Deployment:
  "ValidateDeployment (snd (Deployment e s a c p d)) d"
proof (cases "ValidateDeployment s d")
  case True
  then show ?thesis by (simp add: Deployment_present)
next
  case False
  then show ?thesis
    by (simp add: Deployment_absent ValidateDeployment_def getState_putState_same
        encode_JObj_nonempty)
qed

lemma Revoke_present:
  "ValidateDeployment s d \<Longrightarrow> Revoke e s d r a = (Inl (ReferenceError ''eploymentID''), s)"
  by (simp add: Revoke_def eploymentID_def dropped_def CreateAsset_resumed_def
      TransactionExists_def ValidateDeployment_def Let_def)

lemma Revoke_absent:
  "\<not> ValidateDeployment s d \<Longrightarrow>
   Revoke e s d r a = (Inl (Error ''The does not exist, or already has been revoked''), s)"
  by (simp add: Revoke_def)

lemma Revoke_never_succeeds: "fst (Revoke e s d r a) \<noteq> Inr ()"
proof (cases "ValidateDeployment s d")
  case True
  then show ?thesis by (simp add: Revoke_present)
next
  case False
  then show ?thesis by (simp add: Revoke_absent)
qed

lemma Revoke_keeps_state: "snd (Revoke e s d r a) = s"
proof (cases "ValidateDeployment s d")
  case True
  then show ?thesis by (simp add: Revoke_present)
next
  case False
  then show ?thesis by (simp add: Revoke_absent)
qed

text \<open>\<open>InitLedger\<close> leaves its seed revocation under key "1" whatever the state held there.\<close>

lemma InitLedger_puts_seed:
  "getState (snd (exec e OpInitLedger s)) ''1'' =
     encode (JObj [(''targetDeploymentID'', JStr ''123''), (''reason'', JStr ''example''),
                   (''RevocationID'', JStr ''1'')])"
  by (simp add: InitLedger_def InitLedger_revocations_def str_field_def getState_putState_same)

text \<open>
  Clock and random number generator reach no write: two executions that agree on
  \<open>lands\<close> agree on outcome and state.
\<close>

lemma exec_clock_random_irrelevant: "lands e1 = lands e2 \<Longrightarrow> exec e1 op s = exec e2 op s"
proof (cases op)
  case (OpDeployment a c p d)
  assume "lands e1 = lands e2"
  then show ?thesis using OpDeployment
    by (cases "ValidateDeployment s d") (simp_all add: Deployment_present Deployment_absent)
next
  case (OpRevoke d r a)
  show ?thesis
  proof (cases "ValidateDeployment s d")
    case True
    then show ?thesis using OpRevoke by (simp add: Revoke_present)
  next
    case False
    then show ?thesis using OpRevoke by (simp add: Revoke_absent)
  qed
qed simp_all

lemma sort_key_unique:
  assumes "mset xs = mset ys" and "distinct (map f xs)"
  shows "sort_key f xs = sort_key f ys"
proof (rule map_sorted_distinct_set_unique [where f = f])
  have s: "set xs = set ys" using assms(1) by (rule mset_eq_setD)
  have "mset (map f xs) = mset (map f ys)" using assms(1) by simp
  then have dy: "distinct (map f ys)" using assms(2) by (metis mset_eq_imp_distinct_iff)
  show "inj_on f (set (sort_key f xs) \<union> set (sort_key f ys))"
    using assms(2) s by (simp add: distinct_map)
  show "sorted (map f (sort_key f xs))" "sorted (map f (sort_key f ys))" by simp_all
  show "distinct (map f (sort_key f xs))" using assms(2) by (simp add: distinct_map)
  show "distinct (map f (sort_key f ys))" using dy by (simp add: distinct_map)
  show "set (sort_key f xs) = set (sort_key f ys)" using s by simp
qed

lemma map_eq_if_list_all2:
  "list_all2 P xs ys \<Longrightarrow> (\<And>x y. x \<in> set xs \<Longrightarrow> P x y \<Longrightarrow> f x = g y) \<Longrightarrow> map f xs = map g ys"
  by (induction rule: list_all2_induct) auto

lemma reorder_sortKeysRecursive:
  "reorder r r' \<Longrightarrow> distinct_keys r \<Longrightarrow> sortKeysRecursive r = sortKeysRecursive r'"
proof (induction rule: reorder.induct)
  case (reorder_JArr xs ys)
  have "map sortKeysRecursive xs = map sortKeysRecursive ys"
    using reorder_JArr.IH
  proof (rule map_eq_if_list_all2)
    fix x y
    assume "x \<in> set xs"
      "reorder x y \<and> (distinct_keys x \<longrightarrow> sortKeysRecursive x = sortKeysRecursive y)"
    then show "sortKeysRecursive x = sortKeysRecursive y" using reorder_JArr.prems by simp
  qed
  then show ?case by simp
next
  case (reorder_JObj fs hs gs)
  let ?n = "\<lambda>f. (fst f, sortKeysRecursive (snd f))"
  have "map ?n fs = map ?n hs"
    using reorder_JObj.IH
  proof (rule map_eq_if_list_all2)
    fix f h
    assume "f \<in> set fs"
      "fst f = fst h \<and> reorder (snd f) (snd h) \<and>
        (distinct_keys (snd f) \<longrightarrow> sortKeysRecursive (snd f) = sortKeysRecursive (snd h))"
    then show "?n f = ?n h" using reorder_JObj.prems by simp
  qed
  moreover have "mset (map ?n hs) = mset (map ?n gs)" using reorder_JObj.hyps by simp
  ultimately have m: "mset (map ?n fs) = mset (map ?n gs)" by simp
  have "map fst (map ?n fs) = map fst fs" by (simp add: comp_def)
  moreover have "distinct (map fst fs)" using reorder_JObj.prems by simp
  ultimately have d: "distinct (map fst (map ?n fs))" by (simp only:)
  show ?case using sort_key_unique [OF m d] by simp
qed simp_all

lemma scan_by_field_step:
  "scan_by_field k parse (x # xs) acc =
     (case get_field (parsed_or_raw parse x) k of
        Inl e \<Rightarrow> Inl e
      | Inr None \<Rightarrow> scan_by_field k parse xs acc
      | Inr (Some v) \<Rightarrow> scan_by_field k parse xs (acc @ [parsed_or_raw parse x]))"
  unfolding parsed_or_raw_def by (simp add: Let_def)

text \<open>
  The listing loop in closed form: it raises when some value parses to \<^verbatim>\<open>null\<close>, and
  otherwise returns, in key order, the scanned values on which the field is defined.
\<close>

lemma scan_by_field_eq:
  "scan_by_field k parse xs acc =
     (if \<exists>x \<in> set xs. parsed_or_raw parse x = JNull then Inl TypeError
      else Inr (acc @ filter (\<lambda>r. get_field r k \<noteq> Inr None) (map (parsed_or_raw parse) xs)))"
proof (induction xs arbitrary: acc)
  case Nil
  then show ?case by simp
next
  case (Cons x xs)
  show ?case
  proof (cases "parsed_or_raw parse x")
    case (JObj fs)
    then show ?thesis
      by (cases "map_of fs k") (simp_all only: scan_by_field_step Cons.IH, simp_all)
  qed (simp_all only: scan_by_field_step Cons.IH, simp_all)
qed

lemma GetAllRevocations_returns:
  "(\<exists>rs. GetAllRevocations_records parse s = Inr rs) \<longleftrightarrow>
   (\<forall>x \<in> set s. parsed_or_raw parse x \<noteq> JNull)"
  by (simp add: GetAllRevocations_records_def scan_by_field_eq getStateByRange_def)

text \<open>
  The \<^verbatim>\<open>GetAllRevocations\<close> of \<^verbatim>\<open>node/src/revocationTransfer.ts\<close> filters: whenever it
  returns, every record of its output has the field RevocationID, and no raw string
  (a value that failed to parse) is in the output.
\<close>

lemma GetAllRevocations_filtered:
  assumes "GetAllRevocations_records parse s = Inr rs" and "r \<in> set rs"
  shows "\<exists>v. get_field r ''RevocationID'' = Inr (Some v)"
proof -
  let ?xs = "getStateByRange s"
  from assms(1) have n: "\<forall>x \<in> set ?xs. parsed_or_raw parse x \<noteq> JNull"
    and rs: "rs = filter (\<lambda>r. get_field r ''RevocationID'' \<noteq> Inr None) (map (parsed_or_raw parse) ?xs)"
    by (simp_all add: GetAllRevocations_records_def scan_by_field_eq split: if_splits)
  from assms(2) rs obtain x where x: "x \<in> set ?xs" "r = parsed_or_raw parse x"
    and f: "get_field r ''RevocationID'' \<noteq> Inr None"
    by auto
  from n x have "r \<noteq> JNull" by simp
  with f show ?thesis by (cases r) auto
qed

lemma GetAllRevocations_skips_unparseable:
  assumes "GetAllRevocations_records parse s = Inr rs"
  shows "JStr v \<notin> set rs"
proof
  assume "JStr v \<in> set rs"
  with assms have "\<exists>w. get_field (JStr v) ''RevocationID'' = Inr (Some w)"
    by (rule GetAllRevocations_filtered)
  then show False by simp
qed

lemma GetAllRevocations_after_InitLedger_2:
  "GetAllRevocations_records (parse_known (InitLedger_revocations @ InitLedger_deployment))
     (snd (InitLedger_2 [])) = Inr (map sortKeysRecursive InitLedger_revocations)"
  by code_simp

section \<open>Revocation of a missing deployment\<close>

text \<open>
  Claim C4. In every state in which no deployment with key \<open>deploymentID\<close> exists,
  \<open>Revoke\<close> fails with the error "does not exist, or already has been revoked" and
  returns the state it was given: nothing is written and nothing is deleted.
\<close>

theorem Revoke_missing_NotFound:
  "\<not> ValidateDeployment s deploymentID \<Longrightarrow>
   Revoke e s deploymentID reason authorID =
     (Inl (Error ''The does not exist, or already has been revoked''), s)"
  by (simp add: Revoke_def)

theorem Revoke_missing_NotFound_witness:
  "\<not> ValidateDeployment (snd (InitLedger [])) ''D-missing'' \<and>
   Revoke \<lparr>now = 7, random = ''0.k3'', lands = True\<rparr> (snd (InitLedger [])) ''D-missing'' ''x'' ''A1'' =
     (Inl (Error ''The does not exist, or already has been revoked''), snd (InitLedger []))"
proof -
  have h: "\<not> ValidateDeployment (snd (InitLedger [])) ''D-missing''"
    by code_simp
  show ?thesis
    using h Revoke_missing_NotFound [OF h, of "\<lparr>now = 7, random = ''0.k3'', lands = True\<rparr>" "''x''" "''A1''"]
    by simp
qed

section \<open>Create-if-absent\<close>

text \<open>
  Claim C5. For every state, every key \<open>d\<close> and any two argument tuples, a second
  \<open>Deployment\<close> with key \<open>d\<close> right after a first one fails with "already exists", and
  the state after both calls is the state after the first call. This holds whatever the
  timing of the two executions.
\<close>

theorem Deployment_twice_AlreadyExists:
  "Deployment e2 (snd (Deployment e1 s a1 c1 p1 d)) a2 c2 p2 d =
     (Inl (Error (''The asset '' @ d @ '' already exists'')), snd (Deployment e1 s a1 c1 p1 d))"
  by (rule Deployment_present) (rule ValidateDeployment_after_Deployment)

section \<open>Seeding the ledger\<close>

text \<open>
  Claim C10. Starting from the empty state, \<open>InitLedger\<close> succeeds and leaves under key
  "1" the canonical encoding of the revocation with RevocationID "1", reason "example"
  and targetDeploymentID "123"; \<open>ValidateRevocation\<close> of "1" is then true and
  \<open>GetRevocationByID\<close> of "1" returns those bytes. The same holds for the
  \<open>InitLedger\<close> of the second copy of the contract.
\<close>

theorem InitLedger_seeds_revocation:
  "fst (InitLedger []) = Inr () \<and>
   getState (snd (InitLedger [])) ''1'' =
     encode (JObj [(''RevocationID'', JStr ''1''), (''reason'', JStr ''example''),
                   (''targetDeploymentID'', JStr ''123'')]) \<and>
   ValidateRevocation (snd (InitLedger [])) ''1'' \<and>
   GetRevocationByID (snd (InitLedger [])) ''1'' =
     Inr (encode (JObj [(''RevocationID'', JStr ''1''), (''reason'', JStr ''example''),
                        (''targetDeploymentID'', JStr ''123'')])) \<and>
   fst (InitLedger_2 []) = Inr () \<and>
   getState (snd (InitLedger_2 [])) ''1'' =
     encode (JObj [(''RevocationID'', JStr ''1''), (''reason'', JStr ''example''),
                   (''targetDeploymentID'', JStr ''123'')]) \<and>
   ValidateRevocation (snd (InitLedger_2 [])) ''1'' \<and>
   GetRevocationByID (snd (InitLedger_2 [])) ''1'' =
     Inr (encode (JObj [(''RevocationID'', JStr ''1''), (''reason'', JStr ''example''),
                        (''targetDeploymentID'', JStr ''123'')]))"
  by code_simp

section \<open>What Deployment leaves on the empty ledger\<close>

text \<open>
  \<open>Deployment\<close> of D1 on the empty ledger, evaluated for both timings of the dropped
  \<open>CreateAsset\<close>: when its put lands, key D1 ends with the TransactionLog record; when
  the unit of work ends first, with the Deployment record. The two records differ.
\<close>

lemma Deployment_D1:
  "Deployment e [] ''A1'' ''hello'' ''payload'' ''D1'' =
     (Inr (), [(''D1'', if lands e
                        then encode (JObj [(''transactionID'', JStr ''D1''), (''authorID'', JStr ''A1''),
                                      (''time'', date), (''description'', JStr ''hello'')])
                        else encode (JObj [(''deploymentID'', JStr ''D1''), (''comment'', JStr ''hello''),
                                      (''authorID'', JStr ''A1''), (''payload'', JStr ''payload'')]))])"
proof -
  have "\<not> ValidateDeployment [] ''D1''"
    by (simp add: ValidateDeployment_def getState_def)
  then show ?thesis
    by (simp add: Deployment_absent putState_def)
qed

lemma lands_env_lands: "lands env_lands"
  by (simp add: env_lands_def)

lemma lands_env_late: "\<not> lands env_late"
  by (simp add: env_late_def)

lemma D1_records_differ:
  "encode (JObj [(''transactionID'', JStr ''D1''), (''authorID'', JStr ''A1''),
           (''time'', date), (''description'', JStr ''hello'')]) \<noteq>
   encode (JObj [(''deploymentID'', JStr ''D1''), (''comment'', JStr ''hello''),
           (''authorID'', JStr ''A1''), (''payload'', JStr ''payload'')])"
  by code_simp

lemma D1_exists:
  "ValidateDeployment [(''D1'', encode (JObj fs))] ''D1''"
  by (simp add: ValidateDeployment_def getState_def encode_JObj_nonempty)

lemma revocations_of_D1_deployment:
  "GetAllRevocations_records
       (parse_known [JObj [(''deploymentID'', JStr ''D1''), (''comment'', JStr ''hello''),
                            (''authorID'', JStr ''A1''), (''payload'', JStr ''payload'')],
                     JObj [(''transactionID'', JStr ''D1''), (''authorID'', JStr ''A1''),
                            (''time'', date), (''description'', JStr ''hello'')]])
       [(''D1'', encode (JObj [(''deploymentID'', JStr ''D1''), (''comment'', JStr ''hello''),
                               (''authorID'', JStr ''A1''), (''payload'', JStr ''payload'')]))] = Inr []"
  by code_simp

lemma revocations_of_D1_log:
  "GetAllRevocations_records
       (parse_known [JObj [(''deploymentID'', JStr ''D1''), (''comment'', JStr ''hello''),
                            (''authorID'', JStr ''A1''), (''payload'', JStr ''payload'')],
                     JObj [(''transactionID'', JStr ''D1''), (''authorID'', JStr ''A1''),
                            (''time'', date), (''description'', JStr ''hello'')]])
       [(''D1'', encode (JObj [(''transactionID'', JStr ''D1''), (''authorID'', JStr ''A1''),
                               (''time'', date), (''description'', JStr ''hello'')]))] = Inr []"
  by code_simp

lemma logs_of_D1_deployment:
  "GetAllTransactionLogs_records
       (parse_known [JObj [(''deploymentID'', JStr ''D1''), (''comment'', JStr ''hello''),
                            (''authorID'', JStr ''A1''), (''payload'', JStr ''payload'')],
                     JObj [(''transactionID'', JStr ''D1''), (''authorID'', JStr ''A1''),
                            (''time'', date), (''description'', JStr ''hello'')]])
       [(''D1'', encode (JObj [(''deploymentID'', JStr ''D1''), (''comment'', JStr ''hello''),
                               (''authorID'', JStr ''A1''), (''payload'', JStr ''payload'')]))] = Inr []"
  by code_simp

lemma logs_of_D1_log:
  "GetAllTransactionLogs_records
       (parse_known [JObj [(''deploymentID'', JStr ''D1''), (''comment'', JStr ''hello''),
                            (''authorID'', JStr ''A1''), (''payload'', JStr ''payload'')],
                     JObj [(''transactionID'', JStr ''D1''), (''authorID'', JStr ''A1''),
                            (''time'', date), (''description'', JStr ''hello'')]])
       [(''D1'', encode (JObj [(''transactionID'', JStr ''D1''), (''authorID'', JStr ''A1''),
                               (''time'', date), (''description'', JStr ''hello'')]))] =
     Inr [sortKeysRecursive (JObj [(''transactionID'', JStr ''D1''), (''authorID'', JStr ''A1''),
                              (''time'', date), (''description'', JStr ''hello'')])]"
  by code_simp

lemma GetDeploymentByID_D1:
  "GetDeploymentByID [(''D1'', encode (JObj fs))] ''D1'' = Inr (encode (JObj fs))"
  by (simp add: GetDeploymentByID_def getState_def encode_JObj_nonempty)

section \<open>Revocation of an existing deployment\<close>

text \<open>
  Claim C1 says that \<open>Revoke\<close> of an existing deployment succeeds, that the deployment
  is gone afterwards and that \<open>GetAllRevocations\<close> then lists one revocation of it.
  On the ledger that \<open>Deployment\<close> of D1 leaves, for either timing of that
  \<open>Deployment\<close>, the \<open>Revoke\<close> of the contract stops at the unbound identifier with a
  ReferenceError: the state is the one it started from, \<open>ValidateDeployment\<close> of D1 is
  still true and the listing of revocations is empty.
\<close>

theorem Revoke_existing_fails:
  "ValidateDeployment (snd (Deployment env_late [] ''A1'' ''hello'' ''payload'' ''D1'')) ''D1'' \<and>
   Revoke env_lands
       (snd (Deployment env_late [] ''A1'' ''hello'' ''payload'' ''D1'')) ''D1'' ''bad build'' ''A1'' =
     (Inl (ReferenceError ''eploymentID''),
      snd (Deployment env_late [] ''A1'' ''hello'' ''payload'' ''D1'')) \<and>
   GetAllRevocations_records
       (parse_known [JObj [(''deploymentID'', JStr ''D1''), (''comment'', JStr ''hello''),
                            (''authorID'', JStr ''A1''), (''payload'', JStr ''payload'')],
                     JObj [(''transactionID'', JStr ''D1''), (''authorID'', JStr ''A1''),
                            (''time'', date), (''description'', JStr ''hello'')]])
       (snd (Deployment env_late [] ''A1'' ''hello'' ''payload'' ''D1'')) = Inr [] \<and>
   ValidateDeployment (snd (Deployment env_lands [] ''A1'' ''hello'' ''payload'' ''D1'')) ''D1'' \<and>
   Revoke env_lands
       (snd (Deployment env_lands [] ''A1'' ''hello'' ''payload'' ''D1'')) ''D1'' ''bad build'' ''A1'' =
     (Inl (ReferenceError ''eploymentID''),
      snd (Deployment env_lands [] ''A1'' ''hello'' ''payload'' ''D1'')) \<and>
   GetAllRevocations_records
       (parse_known [JObj [(''deploymentID'', JStr ''D1''), (''comment'', JStr ''hello''),
                            (''authorID'', JStr ''A1''), (''payload'', JStr ''payload'')],
                     JObj [(''transactionID'', JStr ''D1''), (''authorID'', JStr ''A1''),
                            (''time'', date), (''description'', JStr ''hello'')]])
       (snd (Deployment env_lands [] ''A1'' ''hello'' ''payload'' ''D1'')) = Inr []"
  by (simp add: Deployment_D1 lands_env_lands lands_env_late D1_exists Revoke_present
      revocations_of_D1_deployment revocations_of_D1_log)

section \<open>The audit trail\<close>

text \<open>
  Claim C2 says that every successful \<open>Deployment\<close> leaves exactly one new
  TransactionLog entry, whose description is the comment. \<open>Deployment\<close> does not await
  the \<open>CreateAsset\<close> that writes the entry. In the execution on the empty ledger in
  which the unit of work ends before that put lands, \<open>Deployment\<close> succeeds and
  \<open>GetAllTransactionLogs\<close> lists nothing. In the execution in which the put lands, the
  entry is listed, and it has replaced the deployment record under key D1. A \<open>Revoke\<close>
  of D1 adds no entry in either case: it leaves the state as it is.
\<close>

theorem Deployment_without_log_entry:
  "fst (Deployment env_late [] ''A1'' ''hello'' ''payload'' ''D1'') = Inr () \<and>
   GetAllTransactionLogs_records
       (parse_known [JObj [(''deploymentID'', JStr ''D1''), (''comment'', JStr ''hello''),
                            (''authorID'', JStr ''A1''), (''payload'', JStr ''payload'')],
                     JObj [(''transactionID'', JStr ''D1''), (''authorID'', JStr ''A1''),
                            (''time'', date), (''description'', JStr ''hello'')]])
       (snd (Deployment env_late [] ''A1'' ''hello'' ''payload'' ''D1'')) = Inr [] \<and>
   fst (Deployment env_lands [] ''A1'' ''hello'' ''payload'' ''D1'') = Inr () \<and>
   GetAllTransactionLogs_records
       (parse_known [JObj [(''deploymentID'', JStr ''D1''), (''comment'', JStr ''hello''),
                            (''authorID'', JStr ''A1''), (''payload'', JStr ''payload'')],
                     JObj [(''transactionID'', JStr ''D1''), (''authorID'', JStr ''A1''),
                            (''time'', date), (''description'', JStr ''hello'')]])
       (snd (Deployment env_lands [] ''A1'' ''hello'' ''payload'' ''D1'')) =
     Inr [sortKeysRecursive (JObj [(''transactionID'', JStr ''D1''), (''authorID'', JStr ''A1''),
                              (''time'', date), (''description'', JStr ''hello'')])] \<and>
   GetDeploymentByID (snd (Deployment env_lands [] ''A1'' ''hello'' ''payload'' ''D1'')) ''D1'' =
     Inr (encode (JObj [(''transactionID'', JStr ''D1''), (''authorID'', JStr ''A1''),
                        (''time'', date), (''description'', JStr ''hello'')])) \<and>
   snd (Revoke env_lands
          (snd (Deployment env_late [] ''A1'' ''hello'' ''payload'' ''D1'')) ''D1'' ''bad build'' ''A1'') =
     snd (Deployment env_late [] ''A1'' ''hello'' ''payload'' ''D1'')"
  by (simp add: Deployment_D1 lands_env_lands lands_env_late Revoke_keeps_state
      logs_of_D1_deployment logs_of_D1_log GetDeploymentByID_D1)

text \<open>
  Claim C3 says that no operation removes or modifies a TransactionLog entry once it is
  written. \<open>InitLedger\<close> puts its seed revocation under key "1" whatever that key
  holds: after \<open>CreateAsset\<close> has written the log entry with transactionID "1",
  \<open>InitLedger\<close> replaces its bytes, and the entry is no longer listed.
\<close>

theorem InitLedger_overwrites_log:
  "TransactionExists (snd (CreateAsset [] ''1'' ''A1'' date ''audit'')) ''1'' \<and>
   GetAllTransactionLogs_records
       (parse_known (JObj [(''transactionID'', JStr ''1''), (''authorID'', JStr ''A1''),
                           (''time'', date), (''description'', JStr ''audit'')] # InitLedger_revocations))
       (snd (CreateAsset [] ''1'' ''A1'' date ''audit'')) =
     Inr [sortKeysRecursive (JObj [(''transactionID'', JStr ''1''), (''authorID'', JStr ''A1''),
                                   (''time'', date), (''description'', JStr ''audit'')])] \<and>
   getState (snd (exec \<lparr>now = 7, random = ''0.k3'', lands = True\<rparr> OpInitLedger
                    (snd (CreateAsset [] ''1'' ''A1'' date ''audit'')))) ''1'' \<noteq>
   getState (snd (CreateAsset [] ''1'' ''A1'' date ''audit'')) ''1'' \<and>
   GetAllTransactionLogs_records
       (parse_known (JObj [(''transactionID'', JStr ''1''), (''authorID'', JStr ''A1''),
                           (''time'', date), (''description'', JStr ''audit'')] # InitLedger_revocations))
       (snd (exec \<lparr>now = 7, random = ''0.k3'', lands = True\<rparr> OpInitLedger
               (snd (CreateAsset [] ''1'' ''A1'' date ''audit'')))) = Inr []"
  by code_simp

text \<open>
  Claim C3 as amended. In every state and for every timing, a key that holds a
  TransactionLog entry before an operation (\<open>TransactionExists\<close>: the key holds a
  non-empty value) holds the same bytes after it, for \<open>Deployment\<close>, \<open>Revoke\<close> and
  \<open>CreateAsset\<close>, and for \<open>InitLedger\<close> at every key other than "1".
\<close>

theorem existing_entry_kept:
  assumes "TransactionExists s k" and "op \<noteq> OpInitLedger \<or> k \<noteq> ''1''"
  shows "getState (snd (exec e op s)) k = getState s k"
proof (cases op)
  case OpInitLedger
  with assms show ?thesis
    by (simp add: InitLedger_def InitLedger_revocations_def str_field_def getState_putState_other)
next
  case (OpDeployment a c p d)
  show ?thesis
  proof (cases "ValidateDeployment s d")
    case True
    then show ?thesis using OpDeployment by (simp add: Deployment_present)
  next
    case False
    with assms have "k \<noteq> d" by (auto simp: TransactionExists_def ValidateDeployment_def)
    then show ?thesis using OpDeployment False
      by (simp add: Deployment_absent getState_putState_other)
  qed
next
  case (OpRevoke d r a)
  then show ?thesis by (simp add: Revoke_keeps_state)
next
  case (OpCreateAsset i a t d)
  show ?thesis
  proof (cases "TransactionExists s i")
    case True
    then show ?thesis using OpCreateAsset by (simp add: CreateAsset_present)
  next
    case False
    with assms have "k \<noteq> i" by auto
    then show ?thesis using OpCreateAsset False
      by (simp add: CreateAsset_absent getState_putState_other)
  qed
qed

theorem existing_entry_kept_witness:
  "TransactionExists (snd (CreateAsset [] ''1'' ''A1'' date ''audit'')) ''1'' \<and>
   OpRevoke ''1'' ''bad build'' ''A1'' \<noteq> OpInitLedger \<and>
   getState (snd (exec \<lparr>now = 7, random = ''0.k3'', lands = True\<rparr> (OpRevoke ''1'' ''bad build'' ''A1'')
                    (snd (CreateAsset [] ''1'' ''A1'' date ''audit'')))) ''1'' =
   getState (snd (CreateAsset [] ''1'' ''A1'' date ''audit'')) ''1''"
proof -
  have h: "TransactionExists (snd (CreateAsset [] ''1'' ''A1'' date ''audit'')) ''1''"
    by code_simp
  have o: "OpRevoke ''1'' ''bad build'' ''A1'' \<noteq> OpInitLedger \<or> ''1'' \<noteq> ''1''"
    by simp
  show ?thesis
    using h existing_entry_kept [OF h o, of "\<lparr>now = 7, random = ''0.k3'', lands = True\<rparr>"]
    by simp
qed

section \<open>Determinism\<close>

text \<open>
  Claim C6 says that any two executions of the same write operation on the same state
  with the same arguments leave the same bytes. Two executions of \<open>Deployment\<close> of D1
  on the empty ledger, with the same clock and the same random number, differ: the one
  in which the put of the dropped \<open>CreateAsset\<close> lands leaves the TransactionLog record
  under D1, the one in which the unit of work ends first leaves the Deployment record.
\<close>

theorem Deployment_depends_on_timing:
  "exec env_lands
       (OpDeployment ''A1'' ''hello'' ''payload'' ''D1'') [] =
     (Inr (), [(''D1'', encode (JObj [(''transactionID'', JStr ''D1''), (''authorID'', JStr ''A1''),
                                (''time'', date), (''description'', JStr ''hello'')]))]) \<and>
   exec env_late
       (OpDeployment ''A1'' ''hello'' ''payload'' ''D1'') [] =
     (Inr (), [(''D1'', encode (JObj [(''deploymentID'', JStr ''D1''), (''comment'', JStr ''hello''),
                                (''authorID'', JStr ''A1''), (''payload'', JStr ''payload'')]))]) \<and>
   exec env_lands
       (OpDeployment ''A1'' ''hello'' ''payload'' ''D1'') [] \<noteq>
   exec env_late
       (OpDeployment ''A1'' ''hello'' ''payload'' ''D1'') []"
  using D1_records_differ by (simp add: Deployment_D1 lands_env_lands lands_env_late)

section \<open>The canonical encoder\<close>

text \<open>
  Claim C7. For every record whose objects have no key twice, and every reordering of
  its fields and of the fields of its nested objects, the encodings of the record and
  of the reordered record are the same bytes.
\<close>

theorem encode_reorder: "distinct_keys r \<Longrightarrow> reorder r r' \<Longrightarrow> encode r = encode r'"
  by (simp add: encode_def reorder_sortKeysRecursive)

theorem encode_reorder_witness:
  "distinct_keys (JObj [(''payload'', JObj [(''y'', JNum 2), (''x'', JStr ''a'')]),
                        (''authorID'', JArr [JBool True, JNull])]) \<and>
   reorder (JObj [(''payload'', JObj [(''y'', JNum 2), (''x'', JStr ''a'')]),
                  (''authorID'', JArr [JBool True, JNull])])
           (JObj [(''authorID'', JArr [JBool True, JNull]),
                  (''payload'', JObj [(''x'', JStr ''a''), (''y'', JNum 2)])]) \<and>
   encode (JObj [(''payload'', JObj [(''y'', JNum 2), (''x'', JStr ''a'')]),
                 (''authorID'', JArr [JBool True, JNull])]) =
   encode (JObj [(''authorID'', JArr [JBool True, JNull]),
                 (''payload'', JObj [(''x'', JStr ''a''), (''y'', JNum 2)])])"
proof -
  have d: "distinct_keys (JObj [(''payload'', JObj [(''y'', JNum 2), (''x'', JStr ''a'')]),
                        (''authorID'', JArr [JBool True, JNull])])"
    by simp
  have i: "reorder (JObj [(''y'', JNum 2), (''x'', JStr ''a'')])
                   (JObj [(''x'', JStr ''a''), (''y'', JNum 2)])"
    by (rule reorder_JObj [where hs = "[(''y'', JNum 2), (''x'', JStr ''a'')]"])
       (simp_all add: reorder.intros)
  have a: "reorder (JArr [JBool True, JNull]) (JArr [JBool True, JNull])"
    by (rule reorder_JArr) (simp add: reorder.intros)
  have r: "reorder (JObj [(''payload'', JObj [(''y'', JNum 2), (''x'', JStr ''a'')]),
                  (''authorID'', JArr [JBool True, JNull])])
           (JObj [(''authorID'', JArr [JBool True, JNull]),
                  (''payload'', JObj [(''x'', JStr ''a''), (''y'', JNum 2)])])"
    by (rule reorder_JObj [where hs = "[(''payload'', JObj [(''x'', JStr ''a''), (''y'', JNum 2)]),
                                        (''authorID'', JArr [JBool True, JNull])]"])
       (simp_all add: i a)
  show ?thesis using d r encode_reorder [OF d r] by simp
qed

section \<open>Listing revocations\<close>

text \<open>
  Claim C8 says that every record \<open>GetAllRevocations\<close> returns has a revocation
  identifier and that unparseable values are excluded. The \<open>GetAllRevocations\<close> of the
  second copy of the contract returns every scanned value: after its \<open>InitLedger\<close> on
  the empty ledger the listing has six records, the first of them the deployment 0000,
  which has no RevocationID; and a value that does not parse is returned as a raw string.
\<close>

theorem GetAllRevocations_2_unfiltered:
  "length (GetAllRevocations_2_records (parse_known (InitLedger_revocations @ InitLedger_deployment))
             (snd (InitLedger_2 []))) = 6 \<and>
   GetAllRevocations_2_records (parse_known (InitLedger_revocations @ InitLedger_deployment))
       (snd (InitLedger_2 [])) ! 0 =
     JObj [(''authorID'', JStr ''1111''), (''comment'', JStr ''Hello''),
           (''deploymentID'', JStr ''0000''), (''payload'', JStr ''sodjfo'')] \<and>
   get_field (GetAllRevocations_2_records (parse_known (InitLedger_revocations @ InitLedger_deployment))
                (snd (InitLedger_2 [])) ! 0) ''RevocationID'' = Inr None \<and>
   GetAllRevocations_2_records (\<lambda>v. None) [(''k'', ''not json'')] = [JStr ''not json'']"
  by code_simp

section \<open>One key, one kind of record\<close>

text \<open>
  Claim C9 says that no operation writes records of two different kinds under the same
  key. \<open>Deployment\<close> of D1 on the empty ledger puts the Deployment record under key D1,
  and the \<open>CreateAsset\<close> it called then puts the TransactionLog record under the same
  key D1; the two records differ.
\<close>

theorem Deployment_two_kinds_one_key:
  "putState ''D1'' (encode (JObj [(''deploymentID'', JStr ''D1''), (''comment'', JStr ''hello''),
                              (''authorID'', JStr ''A1''), (''payload'', JStr ''payload'')])) [] =
     [(''D1'', encode (JObj [(''deploymentID'', JStr ''D1''), (''comment'', JStr ''hello''),
                                (''authorID'', JStr ''A1''), (''payload'', JStr ''payload'')]))] \<and>
   Deployment env_lands [] ''A1'' ''hello'' ''payload'' ''D1'' =
     (Inr (), putState ''D1''
        (encode (JObj [(''transactionID'', JStr ''D1''), (''authorID'', JStr ''A1''),
                        (''time'', date), (''description'', JStr ''hello'')]))
        (putState ''D1'' (encode (JObj [(''deploymentID'', JStr ''D1''), (''comment'', JStr ''hello''),
                                         (''authorID'', JStr ''A1''), (''payload'', JStr ''payload'')])) [])) \<and>
   snd (Deployment env_lands [] ''A1'' ''hello'' ''payload'' ''D1'') =
     [(''D1'', encode (JObj [(''transactionID'', JStr ''D1''), (''authorID'', JStr ''A1''),
                                (''time'', date), (''description'', JStr ''hello'')]))] \<and>
   encode (JObj [(''transactionID'', JStr ''D1''), (''authorID'', JStr ''A1''),
           (''time'', date), (''description'', JStr ''hello'')]) \<noteq>
   encode (JObj [(''deploymentID'', JStr ''D1''), (''comment'', JStr ''hello''),
           (''authorID'', JStr ''A1''), (''payload'', JStr ''payload'')])"
  using D1_records_differ by (simp add: Deployment_D1 lands_env_lands putState_def)

end
